theory Spec2Isabelle
  imports Complex_Main
begin

section \<open>Strings and numbers of the host language\<close>

text \<open>
  The worker of \<^verbatim>\<open>src/index.ts\<close> is TypeScript. Its strings are modelled as
  \<^typ>\<open>string\<close>; the Chinese literals of the source are written as their UTF-8 bytes.
  \<^verbatim>\<open>s.startsWith(p)\<close> and \<^verbatim>\<open>s.split(c)\<close> with a one-character separator are
  the two string operations the dispatcher uses.

  Numbers are modelled by their exact value: \<open>Fin r\<close> for a finite number, \<open>NaN\<close> and the
  two infinities beside it. \<open>js_number\<close> is the unary \<^verbatim>\<open>+\<close> applied to a
  string (trimming of ASCII white space, the empty string as 0, hexadecimal, octal and
  binary literals, signed decimal literals with fraction and exponent, \<^verbatim>\<open>Infinity\<close>),
  \<open>js_to_string\<close> the conversion of a template literal \<^verbatim>\<open>${id}\<close>. Rounding to the
  nearest double and the exponent notation of very large or very small numbers are not
  modelled: the two conversions are those of the language on integers below
  \<open>2^53\<close> in magnitude, which is where chat identifiers, hours, minutes and skip
  counters live.
\<close>

fun startsWith :: "string \<Rightarrow> string \<Rightarrow> bool" where
  "startsWith s [] = True"
| "startsWith [] (p # ps) = False"
| "startsWith (c # s) (p # ps) = (c = p \<and> startsWith s ps)"

fun split :: "char \<Rightarrow> string \<Rightarrow> string list" where
  "split sep [] = [[]]"
| "split sep (c # cs) =
     (if c = sep then [] # split sep cs
      else (case split sep cs of [] \<Rightarrow> [[c]] | x # xs \<Rightarrow> (c # x) # xs))"

datatype jsnum = NaN | Fin rat | PInf | NInf

definition digit_table :: "(char \<times> nat) list" where
  "digit_table =
     [(CHR ''0'', 0), (CHR ''1'', 1), (CHR ''2'', 2), (CHR ''3'', 3), (CHR ''4'', 4),
      (CHR ''5'', 5), (CHR ''6'', 6), (CHR ''7'', 7), (CHR ''8'', 8), (CHR ''9'', 9),
      (CHR ''a'', 10), (CHR ''b'', 11), (CHR ''c'', 12), (CHR ''d'', 13), (CHR ''e'', 14),
      (CHR ''f'', 15), (CHR ''A'', 10), (CHR ''B'', 11), (CHR ''C'', 12), (CHR ''D'', 13),
      (CHR ''E'', 14), (CHR ''F'', 15)]"

definition is_digit :: "char \<Rightarrow> bool" where
  "is_digit c = (c \<in> set ''0123456789'')"

definition digit_val :: "char \<Rightarrow> nat" where
  "digit_val c = (case map_of digit_table c of Some d \<Rightarrow> d | None \<Rightarrow> 0)"

definition digit_char :: "nat \<Rightarrow> char" where
  "digit_char d = ''0123456789'' ! (d mod 10)"

definition nat_of_digits :: "string \<Rightarrow> nat" where
  "nat_of_digits ds = foldl (\<lambda>a c. 10 * a + digit_val c) 0 ds"

fun digits_of :: "nat \<Rightarrow> string" where
  "digits_of n = (if n < 10 then [digit_char n] else digits_of (n div 10) @ [digit_char (n mod 10)])"

declare digits_of.simps [simp del]

definition int_to_string :: "int \<Rightarrow> string" where
  "int_to_string i = (if i < 0 then CHR ''-'' # digits_of (nat (- i)) else digits_of (nat i))"

fun frac_digits :: "nat \<Rightarrow> rat \<Rightarrow> string" where
  "frac_digits 0 r = []"
| "frac_digits (Suc n) r =
     (if r = 0 then []
      else digit_char (nat \<lfloor>r * 10\<rfloor>) # frac_digits n (r * 10 - of_int \<lfloor>r * 10\<rfloor>))"

definition rat_to_string :: "rat \<Rightarrow> string" where
  "rat_to_string r =
     (if of_int \<lfloor>r\<rfloor> = r then int_to_string \<lfloor>r\<rfloor>
      else (if r < 0 then ''-'' else '''') @ digits_of (nat \<lfloor>\<bar>r\<bar>\<rfloor>) @ ''.'' @
           frac_digits (nat (snd (quotient_of r))) (\<bar>r\<bar> - of_int \<lfloor>\<bar>r\<bar>\<rfloor>))"

fun js_to_string :: "jsnum \<Rightarrow> string" where
  "js_to_string NaN = ''NaN''"
| "js_to_string PInf = ''Infinity''"
| "js_to_string NInf = ''-Infinity''"
| "js_to_string (Fin r) = rat_to_string r"

definition is_space :: "char \<Rightarrow> bool" where
  "is_space c = (c \<in> set [CHR 0x09, CHR 0x0A, CHR 0x0B, CHR 0x0C, CHR 0x0D, CHR '' ''])"

definition trim :: "string \<Rightarrow> string" where
  "trim s = rev (dropWhile is_space (rev (dropWhile is_space s)))"

fun radix_digits :: "nat \<Rightarrow> nat \<Rightarrow> string \<Rightarrow> nat option" where
  "radix_digits b acc [] = Some acc"
| "radix_digits b acc (c # cs) =
     (case map_of digit_table c of
        None \<Rightarrow> None
      | Some d \<Rightarrow> if d < b then radix_digits b (b * acc + d) cs else None)"

definition radix_literal :: "nat \<Rightarrow> string \<Rightarrow> jsnum" where
  "radix_literal b ds =
     (if ds = [] then NaN
      else case radix_digits b 0 ds of None \<Rightarrow> NaN | Some n \<Rightarrow> Fin (of_nat n))"

definition exponent_digits :: "string \<Rightarrow> nat option" where
  "exponent_digits ds = (if ds \<noteq> [] \<and> list_all is_digit ds then Some (nat_of_digits ds) else None)"

definition exponent_part :: "string \<Rightarrow> int option" where
  "exponent_part s =
     (case s of
        [] \<Rightarrow> Some 0
      | c # t \<Rightarrow>
          if c = CHR ''e'' \<or> c = CHR ''E'' then
            (case t of
               [] \<Rightarrow> None
             | d # ds \<Rightarrow>
                 if d = CHR ''+'' then map_option int (exponent_digits ds)
                 else if d = CHR ''-'' then map_option (\<lambda>n. - int n) (exponent_digits ds)
                 else map_option int (exponent_digits t))
          else None)"

definition pow10 :: "int \<Rightarrow> rat" where
  "pow10 k = (if 0 \<le> k then 10 ^ nat k else 1 / 10 ^ nat (- k))"

definition decimal_literal :: "string \<Rightarrow> jsnum" where
  "decimal_literal s =
     (let ip = takeWhile is_digit s;
          r1 = dropWhile is_digit s;
          fp = (case r1 of [] \<Rightarrow> [] | c # t \<Rightarrow> if c = CHR ''.'' then takeWhile is_digit t else []);
          r2 = (case r1 of [] \<Rightarrow> [] | c # t \<Rightarrow> if c = CHR ''.'' then dropWhile is_digit t else r1)
      in if ip = [] \<and> fp = [] then NaN
         else case exponent_part r2 of
                None \<Rightarrow> NaN
              | Some k \<Rightarrow> Fin (of_nat (nat_of_digits (ip @ fp)) * pow10 (k - int (length fp))))"

definition unsigned_literal :: "string \<Rightarrow> jsnum" where
  "unsigned_literal s = (if s = ''Infinity'' then PInf else decimal_literal s)"

fun negate :: "jsnum \<Rightarrow> jsnum" where
  "negate NaN = NaN"
| "negate (Fin r) = Fin (- r)"
| "negate PInf = NInf"
| "negate NInf = PInf"

definition js_number :: "string \<Rightarrow> jsnum" where
  "js_number s =
     (let t = trim s in
      if t = [] then Fin 0
      else if startsWith t ''0x'' \<or> startsWith t ''0X'' then radix_literal 16 (drop 2 t)
      else if startsWith t ''0o'' \<or> startsWith t ''0O'' then radix_literal 8 (drop 2 t)
      else if startsWith t ''0b'' \<or> startsWith t ''0B'' then radix_literal 2 (drop 2 t)
      else case t of
             [] \<Rightarrow> Fin 0
           | c # u \<Rightarrow>
               if c = CHR ''+'' then unsigned_literal u
               else if c = CHR ''-'' then negate (unsigned_literal u)
               else unsigned_literal t)"

section \<open>Data model\<close>

text \<open>
  The error classes of the source, one constructor each, and the built-in ones it meets:
  \<^verbatim>\<open>SyntaxError\<close> from \<^verbatim>\<open>JSON.parse\<close> and \<^verbatim>\<open>json()\<close>, \<^verbatim>\<open>TypeError\<close> from
  indexing \<^verbatim>\<open>null\<close>, and the plain \<^verbatim>\<open>Error\<close> that \<^verbatim>\<open>checkin\<close> throws (its
  message is kept without the JSON text appended to it).
\<close>

datatype error =
    InvalidGaodeResp
  | InvalidUserInfo
  | UserNotFound jsnum
  | LoginError string
  | WrongCommandError string
  | WrongCheckinTime string
  | NotTelegramUpdateError
  | SyntaxError
  | TypeError
  | Error string

datatype gaode_city = City_array "string list" | City_string string

datatype GaodeResp =
  GaodeResp (formatted_address: string) (ac_province: string) (ac_city: gaode_city)
    (ac_district: string)

text \<open>
  \<open>BuaaResp e m\<close>: the portal's answer, a status number and a message. The numbers of
  a record (\<open>chat_id\<close>, \<open>hh\<close>, \<open>mm\<close>, \<open>skip\<close>) and the chat identifier of an update
  are integers, the coordinates rational numbers.
\<close>

datatype BuaaResp = BuaaResp int string

record TelegramMessageLocation =
  longitude :: rat
  latitude :: rat

record UserInfo =
  username :: string
  password :: string
  chat_id :: int
  hh :: int
  mm :: int
  skip :: int
  area :: string
  city :: string
  province :: string
  address :: string
  location :: TelegramMessageLocation
  in_campus :: bool

datatype TelegramUpdate =
  TelegramUpdate (message_chat_id: int) (message_location: "TelegramMessageLocation option")
    (message_text: "string option")

text \<open>The codecs \<^verbatim>\<open>checkin_hh\<close> and \<^verbatim>\<open>checkin_mm\<close>: unions of number literals.\<close>

definition checkin_hh_decode :: "jsnum \<Rightarrow> int option" where
  "checkin_hh_decode u =
     (if u = Fin 16 then Some 16 else if u = Fin 17 then Some 17
      else if u = Fin 18 then Some 18 else if u = Fin 19 then Some 19 else None)"

definition checkin_mm_decode :: "jsnum \<Rightarrow> int option" where
  "checkin_mm_decode u = (if u = Fin 0 then Some 0 else if u = Fin 30 then Some 30 else None)"

text \<open>
  A value of the key-value store is a string. What the program does with it depends on
  three cases only: it is not JSON, it is JSON that is no object with the twelve typed
  fields of \<^verbatim>\<open>UserInfo\<close>, or it is such an object, whose \<open>hh\<close> and \<open>mm\<close> the codec
  still has to check against the literals. \<^verbatim>\<open>JSON.stringify(info)\<close> is \<open>JSON_UserInfo info\<close>.
\<close>

datatype kv_value = Not_JSON | JSON_other | JSON_UserInfo UserInfo

definition UserInfo_decode :: "kv_value \<Rightarrow> error + UserInfo" where
  "UserInfo_decode v =
     (case v of
        Not_JSON \<Rightarrow> Inl SyntaxError
      | JSON_other \<Rightarrow> Inl InvalidUserInfo
      | JSON_UserInfo r \<Rightarrow>
          if checkin_hh_decode (Fin (of_int (hh r))) = None
             \<or> checkin_mm_decode (Fin (of_int (mm r))) = None
          then Inl InvalidUserInfo else Inr r)"

text \<open>
  Everything the worker does to the outside is recorded in order: messages sent to a chat
  (the text, or the fenced JSON of a record, and the markdown flag) and the requests to
  the portal and to the geocoder.
\<close>

datatype message = Plain string | Record_json UserInfo

datatype event =
    Sent int message bool
  | Login_post string string
  | Gaode_get rat rat
  | Checkin_post UserInfo string

record world =
  kv :: "string \<rightharpoonup> kv_value"
  trace :: "event list"

text \<open>
  The answers of the outside services, as the worker reads them: the body of the login
  answer (no JSON; JSON that fails or passes the \<^verbatim>\<open>BuaaResp\<close> codec) with its
  \<^verbatim>\<open>set-cookie\<close> header, the geocoder's answer, the answer to the check-in form, and
  the pages of key names that \<^verbatim>\<open>env.kv.list\<close> returns to one sweep, the last page
  being the one with \<^verbatim>\<open>list_complete\<close> (no page at all stands for one empty page).
  The theorems hold for all answers, so an answer may depend on anything.
\<close>

datatype login_reply = Login_not_json | Login_json "BuaaResp option" "string option"

datatype gaode_reply = Gaode_not_json | Gaode_null | Gaode_json "GaodeResp option"

datatype checkin_reply = Checkin_not_json | Checkin_json "BuaaResp option"

record services =
  portal_login :: "string \<Rightarrow> string \<Rightarrow> login_reply"
  gaode :: "rat \<Rightarrow> rat \<Rightarrow> gaode_reply"
  portal_checkin :: "UserInfo \<Rightarrow> string \<Rightarrow> checkin_reply"
  kv_list :: "string list list"

text \<open>The clock read by \<^verbatim>\<open>new Date()\<close>: UTC hours and minutes.\<close>

datatype clock = Clock (getUTCHours: nat) (getUTCMinutes: nat)

datatype response = Success | End_with_error

definition newline :: string where
  "newline = [CHR 0x0A]"

definition help_text :: string where
  "help_text = newline @ concat (map (\<lambda>l. l @ newline)
     [''- /start: help messages'',
      ''- /info: stored information about current user'',
      ''- /login <username> <password>: store the buaa credential and enable daily checkin'',
      ''- /checkin_at <time>: set checkin time, the hours should between 16 and 19, the minutes should be 0 or 30. Default: 17:30. Example: /checkin_at 18:30. '',
      ''    - /in_campus: set in campus     '',
      ''- /out_of_campus: set out of campus'',
      ''- /delete: erase stored information about current user'',
      ''- /skip: add one skip day'',
      ''- /no_skip: cancel one skip day'',
      ''- /checkin: checkin now'',
      ''- /schedule: trigger the schedule event'',
      '''',
      ''To update your location, send a location to this bot.'',
      '''',
      ''The bot responds to every valid command with the current stored information about current user in JSON format.''])"

definition beijing :: string where
  "beijing = [CHR 0xE5, CHR 0x8C, CHR 0x97, CHR 0xE4, CHR 0xBA, CHR 0xAC, CHR 0xE5, CHR 0xB8, CHR 0x82]"

definition haidian :: string where
  "haidian = [CHR 0xE6, CHR 0xB5, CHR 0xB7, CHR 0xE6, CHR 0xB7, CHR 0x80, CHR 0xE5, CHR 0x8C, CHR 0xBA]"

definition default_address :: string where
  "default_address = beijing @ haidian @
     [CHR 0xE8, CHR 0x8A, CHR 0xB1, CHR 0xE5, CHR 0x9B, CHR 0xAD, CHR 0xE8, CHR 0xB7, CHR 0xAF,
      CHR 0xE8, CHR 0xA1, CHR 0x97, CHR 0xE9, CHR 0x81, CHR 0x93, CHR 0xE5, CHR 0x8C, CHR 0x97,
      CHR 0xE4, CHR 0xBA, CHR 0xAC, CHR 0xE8, CHR 0x88, CHR 0xAA, CHR 0xE7, CHR 0xA9, CHR 0xBA,
      CHR 0xE8, CHR 0x88, CHR 0xAA, CHR 0xE5, CHR 0xA4, CHR 0xA9, CHR 0xE5, CHR 0xA4, CHR 0xA7,
      CHR 0xE5, CHR 0xAD, CHR 0xA6, CHR 0xE5, CHR 0xA4, CHR 0xA7, CHR 0xE8, CHR 0xBF, CHR 0x90,
      CHR 0xE6, CHR 0x9D, CHR 0x91, CHR 0xE5, CHR 0xAD, CHR 0xA6, CHR 0xE7, CHR 0x94, CHR 0x9F,
      CHR 0xE5, CHR 0x85, CHR 0xAC, CHR 0xE5, CHR 0xAF, CHR 0x93]"

section \<open>Portal session, notifications and the record store\<close>

definition login :: "services \<Rightarrow> string \<Rightarrow> string \<Rightarrow> world \<Rightarrow> world \<times> (error + string)" where
  "login sv u p w =
     (let w1 = w\<lparr>trace := trace w @ [Login_post u p]\<rparr> in
      case portal_login sv u p of
        Login_not_json \<Rightarrow> (w1, Inl SyntaxError)
      | Login_json None cookies \<Rightarrow> (w1, Inl (LoginError ''Invalid Login Response''))
      | Login_json (Some (BuaaResp e m)) cookies \<Rightarrow>
          if e = 1 then (w1, Inl (LoginError (''Login Failed '' @ m)))
          else (case cookies of
                  None \<Rightarrow> (w1, Inl (LoginError ''set-cookie not found''))
                | Some c \<Rightarrow> (w1, Inr c)))"

definition send_message_to :: "world \<Rightarrow> int \<Rightarrow> message \<Rightarrow> bool \<Rightarrow> world" where
  "send_message_to w cid msg markdown = w\<lparr>trace := trace w @ [Sent cid msg markdown]\<rparr>"

text \<open>
  \<^verbatim>\<open>checkin\<close> logs in, asks the geocoder, posts the form and reports the portal's
  answer. The form is determined by the record (area, city, province, address and,
  through \<open>in_campus\<close>, the field \<^verbatim>\<open>sfzs\<close>) and the geocoder's answer; the event
  \<open>Checkin_post\<close> records the record and the cookie it is sent with.
\<close>

definition checkin :: "services \<Rightarrow> UserInfo \<Rightarrow> world \<Rightarrow> world \<times> (error + unit)" where
  "checkin sv info w =
     (case login sv (username info) (password info) w of
        (w1, Inl e) \<Rightarrow> (w1, Inl e)
      | (w1, Inr cookies) \<Rightarrow>
          (let lon = longitude (location info); lat = latitude (location info);
               w2 = w1\<lparr>trace := trace w1 @ [Gaode_get lon lat]\<rparr>
           in case gaode sv lon lat of
                Gaode_not_json \<Rightarrow> (w2, Inl SyntaxError)
              | Gaode_null \<Rightarrow> (w2, Inl TypeError)
              | Gaode_json j \<Rightarrow>
                  (let w3 = w2\<lparr>trace := trace w2 @ [Checkin_post info cookies]\<rparr>
                   in case portal_checkin sv info cookies of
                        Checkin_not_json \<Rightarrow>
                          (send_message_to w3 (chat_id info)
                             (Plain ''checkin failed: resp is not JSON'') False, Inr ())
                      | Checkin_json None \<Rightarrow> (w3, Inl (Error ''Invalid CheckIn Resp''))
                      | Checkin_json (Some (BuaaResp e m)) \<Rightarrow>
                          (send_message_to w3 (chat_id info) (Plain m) False, Inr ()))))"

definition user_key :: "jsnum \<Rightarrow> string" where
  "user_key ident = ''user:'' @ js_to_string ident"

definition info_of :: "(string \<rightharpoonup> kv_value) \<Rightarrow> jsnum \<Rightarrow> error + UserInfo" where
  "info_of store ident =
     (case store (user_key ident) of
        None \<Rightarrow> Inl (UserNotFound ident)
      | Some v \<Rightarrow> UserInfo_decode v)"

definition check_with_user :: "world \<Rightarrow> jsnum \<Rightarrow> world \<times> (error + unit)" where
  "check_with_user w ident =
     (case info_of (kv w) ident of
        Inl e \<Rightarrow> (w, Inl e)
      | Inr info \<Rightarrow> (send_message_to w (chat_id info) (Record_json info) True, Inr ()))"

definition kv_put :: "world \<Rightarrow> string \<Rightarrow> kv_value \<Rightarrow> world" where
  "kv_put w k v = w\<lparr>kv := (kv w)(k \<mapsto> v)\<rparr>"

definition kv_delete :: "world \<Rightarrow> string \<Rightarrow> world" where
  "kv_delete w k = w\<lparr>kv := (kv w)(k := None)\<rparr>"

section \<open>Scheduler sweep\<close>

text \<open>
  How the body of the sweep's \<^verbatim>\<open>for\<close> loop is left before its end: by
  \<^verbatim>\<open>return\<close> from the handler of \<^verbatim>\<open>UserNotFound\<close>, or by an exception that the
  handler throws again.
\<close>

datatype loop_exit = Returned | Thrown error

definition sweep_catch :: "error \<Rightarrow> loop_exit" where
  "sweep_catch e = (case e of UserNotFound i \<Rightarrow> Returned | _ \<Rightarrow> Thrown e)"

definition key_id :: "string \<Rightarrow> jsnum" where
  "key_id name = (case split CHR '':'' name of a # b # rest \<Rightarrow> js_number b | _ \<Rightarrow> NaN)"

definition current_minutes :: "clock \<Rightarrow> int" where
  "current_minutes d = int ((getUTCHours d + 8) mod 24) * 60 + int (getUTCMinutes d)"

definition expected_minutes :: "UserInfo \<Rightarrow> int" where
  "expected_minutes info = hh info * 60 + mm info"

text \<open>One round of the \<^verbatim>\<open>for\<close> loop, for the key \<open>name\<close>, with the list \<open>users\<close> so far.\<close>

definition sweep_key ::
  "clock \<Rightarrow> string \<Rightarrow> world \<Rightarrow> UserInfo list \<Rightarrow> world \<times> (loop_exit + UserInfo list)" where
  "sweep_key d name w users =
     (let ident = key_id name in
      case info_of (kv w) ident of
        Inl e \<Rightarrow> (w, Inl (sweep_catch e))
      | Inr info \<Rightarrow>
          if \<bar>expected_minutes info - current_minutes d\<bar> > 10 then (w, Inr users)
          else if skip info > 0 then
            (let info1 = info\<lparr>skip := skip info - 1\<rparr>;
                 w1 = kv_put w (user_key ident) (JSON_UserInfo info1);
                 w2 = send_message_to w1 (chat_id info1) (Plain ''skip for today'') False
             in case check_with_user w2 (Fin (of_int (chat_id info1))) of
                  (w3, Inl e) \<Rightarrow> (w3, Inl (sweep_catch e))
                | (w3, Inr u) \<Rightarrow> (w3, Inr (users @ [info1])))
          else (w, Inr (users @ [info])))"

fun sweep_keys ::
  "clock \<Rightarrow> string list \<Rightarrow> world \<Rightarrow> UserInfo list \<Rightarrow> world \<times> (loop_exit + UserInfo list)" where
  "sweep_keys d [] w users = (w, Inr users)"
| "sweep_keys d (name # names) w users =
     (case sweep_key d name w users of
        (w1, Inl x) \<Rightarrow> (w1, Inl x)
      | (w1, Inr users1) \<Rightarrow> sweep_keys d names w1 users1)"

fun sweep_pages ::
  "clock \<Rightarrow> string list list \<Rightarrow> world \<Rightarrow> UserInfo list \<Rightarrow> world \<times> (loop_exit + UserInfo list)" where
  "sweep_pages d [] w users = (w, Inr users)"
| "sweep_pages d (page # pages) w users =
     (case sweep_keys d page w users of
        (w1, Inl x) \<Rightarrow> (w1, Inl x)
      | (w1, Inr users1) \<Rightarrow> sweep_pages d pages w1 users1)"

fun checkin_all :: "services \<Rightarrow> UserInfo list \<Rightarrow> world \<Rightarrow> world \<times> (error + unit)" where
  "checkin_all sv [] w = (w, Inr ())"
| "checkin_all sv (user # users) w =
     (case checkin sv user w of
        (w1, Inl e) \<Rightarrow> (w1, Inl e)
      | (w1, Inr u) \<Rightarrow> checkin_all sv users w1)"

definition do_scheduled :: "services \<Rightarrow> clock \<Rightarrow> world \<Rightarrow> world \<times> (error + unit)" where
  "do_scheduled sv d w =
     (case sweep_pages d (kv_list sv) w [] of
        (w1, Inl Returned) \<Rightarrow> (w1, Inr ())
      | (w1, Inl (Thrown e)) \<Rightarrow> (w1, Inl e)
      | (w1, Inr users) \<Rightarrow> checkin_all sv users w1)"

section \<open>Command interpreter\<close>

definition default_info :: "string \<Rightarrow> string \<Rightarrow> int \<Rightarrow> UserInfo" where
  "default_info u p cid =
     \<lparr>username = u, password = p, chat_id = cid, hh = 17, mm = 30, skip = 0,
      area = beijing @ '' '' @ haidian, city = beijing, province = beijing,
      address = default_address,
      location = \<lparr>longitude = 116.343699, latitude = 39.977847\<rparr>,
      in_campus = True\<rparr>"

definition cmd_login :: "services \<Rightarrow> int \<Rightarrow> string \<Rightarrow> world \<Rightarrow> world \<times> (error + unit)" where
  "cmd_login sv cid txt w =
     (let args = split CHR '' '' txt in
      if length args \<noteq> 3 then (w, Inl (WrongCommandError txt))
      else case login sv (args ! 1) (args ! 2) w of
             (w1, Inl e) \<Rightarrow> (w1, Inl e)
           | (w1, Inr cookies) \<Rightarrow>
               check_with_user
                 (kv_put w1 (user_key (Fin (of_int cid)))
                    (JSON_UserInfo (default_info (args ! 1) (args ! 2) cid)))
                 (Fin (of_int cid)))"

definition cmd_checkin_at :: "int \<Rightarrow> string \<Rightarrow> world \<Rightarrow> world \<times> (error + unit)" where
  "cmd_checkin_at cid txt w =
     (let args = split CHR '' '' txt in
      if length args \<noteq> 2 then (w, Inl (WrongCommandError txt))
      else let parts = split CHR '':'' (args ! 1) in
        if length parts \<noteq> 2 then (w, Inl (WrongCheckinTime (args ! 1)))
        else case (checkin_hh_decode (js_number (parts ! 0)),
                   checkin_mm_decode (js_number (parts ! 1))) of
               (Some h, Some m) \<Rightarrow>
                 (case info_of (kv w) (Fin (of_int cid)) of
                    Inl e \<Rightarrow> (w, Inl e)
                  | Inr info \<Rightarrow>
                      check_with_user
                        (kv_put w (user_key (Fin (of_int cid)))
                           (JSON_UserInfo (info\<lparr>hh := h, mm := m\<rparr>)))
                        (Fin (of_int cid)))
             | _ \<Rightarrow> (w, Inl (WrongCheckinTime (args ! 1))))"

definition cmd_info :: "clock \<Rightarrow> int \<Rightarrow> world \<Rightarrow> world \<times> (error + unit)" where
  "cmd_info d cid w =
     check_with_user
       (send_message_to w cid
          (Plain (''Current Time: '' @ js_to_string (Fin (of_nat ((getUTCHours d + 8) mod 24)))
                  @ '':'' @ js_to_string (Fin (of_nat (getUTCMinutes d))))) False)
       (Fin (of_int cid))"

text \<open>
  The commands that read the record, change fields of it and write it back:
  \<open>update_info f\<close> is \<^verbatim>\<open>info_of\<close>, the assignments \<open>f\<close>, \<^verbatim>\<open>env.kv.put\<close> and
  \<^verbatim>\<open>check_with_user\<close>.
\<close>

definition update_info :: "(UserInfo \<Rightarrow> UserInfo) \<Rightarrow> int \<Rightarrow> world \<Rightarrow> world \<times> (error + unit)" where
  "update_info f cid w =
     (case info_of (kv w) (Fin (of_int cid)) of
        Inl e \<Rightarrow> (w, Inl e)
      | Inr info \<Rightarrow>
          check_with_user (kv_put w (user_key (Fin (of_int cid))) (JSON_UserInfo (f info)))
            (Fin (of_int cid)))"

definition cmd_skip :: "int \<Rightarrow> world \<Rightarrow> world \<times> (error + unit)" where
  "cmd_skip = update_info (\<lambda>info. info\<lparr>skip := skip info + 1\<rparr>)"

definition cmd_no_skip :: "int \<Rightarrow> world \<Rightarrow> world \<times> (error + unit)" where
  "cmd_no_skip = update_info (\<lambda>info. if skip info > 0 then info\<lparr>skip := skip info - 1\<rparr> else info)"

definition cmd_checkin :: "services \<Rightarrow> int \<Rightarrow> world \<Rightarrow> world \<times> (error + unit)" where
  "cmd_checkin sv cid w =
     (case info_of (kv w) (Fin (of_int cid)) of
        Inl e \<Rightarrow> (w, Inl e)
      | Inr info \<Rightarrow> checkin sv info w)"

definition cmd_delete :: "int \<Rightarrow> world \<Rightarrow> world \<times> (error + unit)" where
  "cmd_delete cid w =
     check_with_user (kv_delete w (user_key (Fin (of_int cid)))) (Fin (of_int cid))"

definition cmd_in_campus :: "int \<Rightarrow> world \<Rightarrow> world \<times> (error + unit)" where
  "cmd_in_campus = update_info (\<lambda>info. info\<lparr>in_campus := True\<rparr>)"

definition cmd_out_of_campus :: "int \<Rightarrow> world \<Rightarrow> world \<times> (error + unit)" where
  "cmd_out_of_campus = update_info (\<lambda>info. info\<lparr>in_campus := False\<rparr>)"

definition on_location ::
  "services \<Rightarrow> int \<Rightarrow> TelegramMessageLocation \<Rightarrow> world \<Rightarrow> world \<times> (error + unit)" where
  "on_location sv cid loc w =
     (let w1 = w\<lparr>trace := trace w @ [Gaode_get (longitude loc) (latitude loc)]\<rparr> in
      case gaode sv (longitude loc) (latitude loc) of
        Gaode_not_json \<Rightarrow> (w1, Inl SyntaxError)
      | Gaode_null \<Rightarrow> (w1, Inl InvalidGaodeResp)
      | Gaode_json None \<Rightarrow> (w1, Inl InvalidGaodeResp)
      | Gaode_json (Some resp) \<Rightarrow>
          (let province1 = ac_province resp;
               city1 = (case ac_city resp of City_string s \<Rightarrow> s | City_array xs \<Rightarrow> province1);
               district1 = ac_district resp;
               area1 = city1 @ '' '' @ district1;
               address1 = formatted_address resp
           in update_info
                (\<lambda>info. info\<lparr>city := city1, province := province1, area := area1,
                                address := address1, location := loc\<rparr>) cid w1))"

definition dispatch ::
  "services \<Rightarrow> clock \<Rightarrow> TelegramUpdate \<Rightarrow> world \<Rightarrow> world \<times> (error + unit)" where
  "dispatch sv d update w =
     (let cid = message_chat_id update in
      case message_text update of
        Some txt \<Rightarrow>
          if startsWith txt ''/start'' then (send_message_to w cid (Plain help_text) False, Inr ())
          else if startsWith txt ''/login '' then cmd_login sv cid txt w
          else if startsWith txt ''/checkin_at '' then cmd_checkin_at cid txt w
          else if startsWith txt ''/info'' then cmd_info d cid w
          else if startsWith txt ''/skip'' then cmd_skip cid w
          else if startsWith txt ''/no_skip'' then cmd_no_skip cid w
          else if startsWith txt ''/checkin'' then cmd_checkin sv cid w
          else if startsWith txt ''/delete'' then cmd_delete cid w
          else if startsWith txt ''/in_campus'' then cmd_in_campus cid w
          else if startsWith txt ''/out_of_campus'' then cmd_out_of_campus cid w
          else if startsWith txt ''/schedule'' then do_scheduled sv d w
          else (w, Inl (WrongCommandError txt))
      | None \<Rightarrow>
          (case message_location update of
             Some loc \<Rightarrow> on_location sv cid loc w
           | None \<Rightarrow> (w, Inr ())))"

text \<open>The inner \<^verbatim>\<open>catch\<close> of \<^verbatim>\<open>fetch\<close>, around the dispatch, and the outer one.\<close>

definition inner_catch :: "int \<Rightarrow> world \<times> (error + unit) \<Rightarrow> world \<times> (error + response)" where
  "inner_catch cid r =
     (case r of
        (w, Inr u) \<Rightarrow> (w, Inr Success)
      | (w, Inl (WrongCommandError c)) \<Rightarrow>
          (send_message_to w cid (Plain (''Invalid command: '' @ c @ newline @ help_text)) False,
           Inr End_with_error)
      | (w, Inl (LoginError m)) \<Rightarrow> (send_message_to w cid (Plain m) False, Inr End_with_error)
      | (w, Inl (WrongCheckinTime t)) \<Rightarrow>
          (send_message_to w cid
             (Plain (''Wrong checkin time: '' @ t
                     @ '', hours should between 16 and 19, minutes shoud be 0 or 30.'')) False,
           Inr End_with_error)
      | (w, Inl (UserNotFound i)) \<Rightarrow>
          (send_message_to w cid
             (Plain (''User '' @ js_to_string (Fin (of_int cid)) @ '' does not exist'')) False,
           Inr End_with_error)
      | (w, Inl e) \<Rightarrow> (w, Inl e))"

definition outer_catch :: "world \<times> (error + response) \<Rightarrow> world \<times> (error + response)" where
  "outer_catch r =
     (case r of
        (w, Inr x) \<Rightarrow> (w, Inr x)
      | (w, Inl NotTelegramUpdateError) \<Rightarrow> (w, Inr End_with_error)
      | (w, Inl (UserNotFound i)) \<Rightarrow> (w, Inr End_with_error)
      | (w, Inl InvalidUserInfo) \<Rightarrow> (w, Inr End_with_error)
      | (w, Inl SyntaxError) \<Rightarrow> (w, Inr End_with_error)
      | (w, Inl e) \<Rightarrow> (w, Inl e))"

text \<open>
  The request body: no JSON, JSON that is no \<^verbatim>\<open>TelegramUpdate\<close>, or an update.
  The result is the response, or the exception that leaves \<^verbatim>\<open>fetch\<close>.
\<close>

datatype request = Req_not_json | Req_json "TelegramUpdate option"

definition fetch :: "services \<Rightarrow> clock \<Rightarrow> request \<Rightarrow> world \<Rightarrow> world \<times> (error + response)" where
  "fetch sv d req w =
     (case req of
        Req_not_json \<Rightarrow> outer_catch (w, Inl SyntaxError)
      | Req_json None \<Rightarrow> outer_catch (w, Inl NotTelegramUpdateError)
      | Req_json (Some update) \<Rightarrow>
          outer_catch (inner_catch (message_chat_id update) (dispatch sv d update w)))"


section \<open>Notions used by the properties\<close>

text \<open>
  \<open>parses_as S h m\<close>: the argument \<open>S\<close> of \<^verbatim>\<open>/checkin_at\<close> denotes the time
  \<open>h:m\<close>. It holds no blank, the colon cuts it into exactly two parts, and the unary
  \<^verbatim>\<open>+\<close> of the source converts the parts to the numbers \<open>h\<close> and \<open>m\<close>.
\<close>

definition parses_as :: "string \<Rightarrow> int \<Rightarrow> int \<Rightarrow> bool" where
  "parses_as S h m =
     (CHR '' '' \<notin> set S \<and>
      (case split CHR '':'' S of
         [a, b] \<Rightarrow> js_number a = Fin (of_int h) \<and> js_number b = Fin (of_int m)
       | _ \<Rightarrow> False))"

text \<open>The events that are messages to a chat, as opposed to requests to the portal or the geocoder.\<close>

fun is_sent :: "event \<Rightarrow> bool" where
  "is_sent (Sent c m b) = True"
| "is_sent e = False"



section \<open>Sample values\<close>

text \<open>
  A user who has registered from chat 42, the world after that registration, the world
  after a following \<^verbatim>\<open>/skip\<close>, a store with a damaged value, and services that
  answer well or refuse the login.
\<close>

definition sample_info :: UserInfo where
  "sample_info = default_info ''alice'' ''secret'' 42"

definition sample_world :: world where
  "sample_world =
     \<lparr>kv = [''user:42'' \<mapsto> JSON_UserInfo sample_info],
      trace = [Login_post ''alice'' ''secret'', Sent 42 (Record_json sample_info) True]\<rparr>"

definition skipped_world :: world where
  "skipped_world =
     \<lparr>kv = [''user:42'' \<mapsto> JSON_UserInfo (sample_info\<lparr>skip := 1\<rparr>)],
      trace = [Login_post ''alice'' ''secret'', Sent 42 (Record_json sample_info) True,
               Sent 42 (Record_json (sample_info\<lparr>skip := 1\<rparr>)) True]\<rparr>"

definition corrupt_world :: world where
  "corrupt_world =
     \<lparr>kv = [''user:42'' \<mapsto> JSON_UserInfo sample_info, ''user:7'' \<mapsto> JSON_other], trace = []\<rparr>"

definition sample_resp :: GaodeResp where
  "sample_resp = GaodeResp ''Xueyuan Road 37'' ''Beijing'' (City_array []) ''Haidian''"

definition sample_services :: services where
  "sample_services =
     \<lparr>portal_login = (\<lambda>u p. Login_json (Some (BuaaResp 0 ''ok'')) (Some ''cookie'')),
      gaode = (\<lambda>lon lat. Gaode_json (Some sample_resp)),
      portal_checkin = (\<lambda>info c. Checkin_json (Some (BuaaResp 0 ''done''))),
      kv_list = [[''user:42'']]\<rparr>"

definition failing_services :: services where
  "failing_services =
     sample_services\<lparr>portal_login := (\<lambda>u p. Login_json (Some (BuaaResp 1 ''bad password'')) None)\<rparr>"

definition sample_location :: TelegramMessageLocation where
  "sample_location = \<lparr>longitude = 116.35, latitude = 39.98\<rparr>"

section \<open>Facts about strings and numbers\<close>

lemma split_no_sep: "sep \<notin> set s \<Longrightarrow> split sep s = [s]"
  by (induction s) auto

lemma split_append_sep: "sep \<notin> set a \<Longrightarrow> split sep (a @ sep # b) = a # split sep b"
  by (induction a) (auto simp: split_no_sep split: list.splits)

lemma split_not_Nil [simp]: "split sep s \<noteq> []"
  by (induction s) (auto split: list.splits)

lemma length_split: "length (split sep s) = Suc (length (filter (\<lambda>c. c = sep) s))"
  by (induction s) (auto split: list.splits)

lemma length_split_one: "length (split sep s) = Suc 0 \<longleftrightarrow> sep \<notin> set s"
  by (auto simp: length_split filter_empty_conv)

text \<open>An integer, written out and read back, is the same number.\<close>

lemma rat_to_string_of_int [simp]: "rat_to_string (of_int i) = int_to_string i"
  by (simp add: rat_to_string_def)

lemma digit_char_is_digit: "is_digit (digit_char d)"
proof -
  have "d mod 10 < 10" by simp
  then have "d mod 10 \<in> {0, 1, 2, 3, 4, 5, 6, 7, 8, 9}" by (simp only: insert_iff empty_iff) arith
  then show ?thesis
    unfolding digit_char_def is_digit_def by (auto simp: nth_Cons')
qed

lemma digit_val_digit_char: "d < 10 \<Longrightarrow> digit_val (digit_char d) = d"
proof -
  assume "d < 10"
  then have "d \<in> {0, 1, 2, 3, 4, 5, 6, 7, 8, 9}" by (simp only: insert_iff empty_iff) arith
  then show ?thesis
    unfolding digit_char_def digit_val_def digit_table_def by (auto simp: nth_Cons')
qed

lemma digits_of_digits: "list_all is_digit (digits_of n)"
proof (induction n rule: digits_of.induct)
  case (1 n)
  then show ?case
    by (subst digits_of.simps) (simp add: digit_char_is_digit)
qed

lemma digits_of_not_Nil: "digits_of n \<noteq> []"
  by (subst digits_of.simps) simp

lemma nat_of_digits_snoc: "nat_of_digits (ds @ [c]) = 10 * nat_of_digits ds + digit_val c"
  by (simp add: nat_of_digits_def)

lemma nat_of_digits_of: "nat_of_digits (digits_of n) = n"
proof (induction n rule: digits_of.induct)
  case (1 n)
  show ?case
  proof (cases "n < 10")
    case True
    then show ?thesis
      by (subst digits_of.simps) (simp add: nat_of_digits_def digit_val_digit_char)
  next
    case False
    then have "nat_of_digits (digits_of n) = 10 * nat_of_digits (digits_of (n div 10)) + digit_val (digit_char (n mod 10))"
      by (subst digits_of.simps) (simp add: nat_of_digits_snoc)
    then show ?thesis using 1 False by (simp add: digit_val_digit_char)
  qed
qed

lemma digit_not_space: "is_digit c \<Longrightarrow> \<not> is_space c"
  by (auto simp: is_digit_def is_space_def)

lemma trim_id:
  assumes "s \<noteq> []" and "\<not> is_space (hd s)" and "\<not> is_space (last s)"
  shows "trim s = s"
proof -
  have "dropWhile is_space s = s" using assms by (simp add: dropWhile_eq_self_iff)
  moreover have "dropWhile is_space (rev s) = rev s"
    using assms by (simp add: dropWhile_eq_self_iff hd_rev)
  ultimately show ?thesis by (simp add: trim_def)
qed

lemma digits_no_prefix:
  assumes "list_all is_digit s" and "\<not> is_digit x"
  shows "\<not> startsWith s [a, x]"
proof (cases s)
  case Nil
  then show ?thesis by simp
next
  case (Cons c r)
  then show ?thesis using assms by (cases r) auto
qed

lemma decimal_literal_digits:
  assumes "list_all is_digit s" and "s \<noteq> []"
  shows "decimal_literal s = Fin (of_nat (nat_of_digits s))"
proof -
  have t: "takeWhile is_digit s = s" using assms(1) by (simp add: list_all_iff)
  have dr: "dropWhile is_digit s = []" using assms(1) by (simp add: list_all_iff)
  show ?thesis
    unfolding decimal_literal_def t dr using assms(2)
    by (simp add: exponent_part_def pow10_def)
qed

lemma unsigned_literal_digits:
  assumes "list_all is_digit s" and "s \<noteq> []"
  shows "unsigned_literal s = Fin (of_nat (nat_of_digits s))"
proof -
  have "s \<noteq> ''Infinity''" using assms(1) by (auto simp: is_digit_def)
  then show ?thesis using decimal_literal_digits [OF assms] by (simp add: unsigned_literal_def)
qed

lemma js_number_digits_of: "js_number (digits_of n) = Fin (of_nat n)"
proof -
  let ?s = "digits_of n"
  have dg: "list_all is_digit ?s" by (rule digits_of_digits)
  have ne: "?s \<noteq> []" by (rule digits_of_not_Nil)
  have "is_digit (hd ?s)" "is_digit (last ?s)"
    using dg ne by (simp_all add: list_all_iff)
  then have tr: "trim ?s = ?s" using ne digit_not_space trim_id by blast
  have np: "\<not> startsWith ?s ''0x''" "\<not> startsWith ?s ''0X''" "\<not> startsWith ?s ''0o''"
    "\<not> startsWith ?s ''0O''" "\<not> startsWith ?s ''0b''" "\<not> startsWith ?s ''0B''"
    by (rule digits_no_prefix [OF dg], simp add: is_digit_def)+
  obtain c u where cu: "?s = c # u" using ne by (cases ?s) auto
  then have "is_digit c" using dg by simp
  then have cs: "c \<noteq> CHR ''+''" "c \<noteq> CHR ''-''" by (auto simp: is_digit_def)
  have "js_number ?s = unsigned_literal ?s"
    unfolding js_number_def tr Let_def using np ne cs cu by auto
  then show ?thesis using unsigned_literal_digits [OF dg ne] nat_of_digits_of by simp
qed

lemma js_number_minus_digits_of: "js_number (CHR ''-'' # digits_of n) = Fin (- of_nat n)"
proof -
  let ?s = "digits_of n"
  have dg: "list_all is_digit ?s" by (rule digits_of_digits)
  have ne: "?s \<noteq> []" by (rule digits_of_not_Nil)
  have "is_digit (last ?s)" using dg ne by (simp add: list_all_iff)
  then have "\<not> is_space (last (CHR ''-'' # ?s))" using ne digit_not_space by simp
  moreover have "\<not> is_space (hd (CHR ''-'' # ?s))" by (simp add: is_space_def)
  ultimately have tr: "trim (CHR ''-'' # ?s) = CHR ''-'' # ?s" using trim_id by blast
  have "js_number (CHR ''-'' # ?s) = negate (unsigned_literal ?s)"
    unfolding js_number_def tr Let_def by simp
  then show ?thesis using unsigned_literal_digits [OF dg ne] nat_of_digits_of by simp
qed

lemma js_number_int_to_string: "js_number (int_to_string i) = Fin (of_int i)"
proof (cases "i < 0")
  case True
  then have "(of_int i :: rat) = - of_nat (nat (- i))" by simp
  then show ?thesis using True js_number_minus_digits_of [of "nat (- i)"]
    by (simp add: int_to_string_def)
next
  case False
  then have "(of_int i :: rat) = of_nat (nat i)" by simp
  then show ?thesis using False js_number_digits_of [of "nat i"]
    by (simp add: int_to_string_def)
qed

lemma int_to_string_no_colon: "CHR '':'' \<notin> set (int_to_string i)"
proof -
  have nd: "\<not> is_digit CHR '':''" by (simp add: is_digit_def)
  have "\<forall>c \<in> set (digits_of n). is_digit c" for n
    using digits_of_digits [of n] by (simp only: list_all_iff)
  then have "CHR '':'' \<notin> set (digits_of n)" for n
    using nd by blast
  then show ?thesis by (simp add: int_to_string_def)
qed

lemma key_id_user_key: "key_id (user_key (Fin (of_int i))) = Fin (of_int i)"
proof -
  have "split CHR '':'' (''user'' @ CHR '':'' # int_to_string i) = ''user'' # split CHR '':'' (int_to_string i)"
    by (rule split_append_sep) simp
  then have "split CHR '':'' (user_key (Fin (of_int i))) = [''user'', int_to_string i]"
    using split_no_sep [OF int_to_string_no_colon, of i] by (simp add: user_key_def)
  then show ?thesis
    unfolding key_id_def by (simp add: js_number_int_to_string)
qed

section \<open>Facts about the store and the commands\<close>

lemma checkin_hh_decode_int:
  "checkin_hh_decode (Fin (of_int h)) = (if h \<in> {16, 17, 18, 19} then Some h else None)"
  by (auto simp: checkin_hh_decode_def)

lemma checkin_mm_decode_int:
  "checkin_mm_decode (Fin (of_int m)) = (if m \<in> {0, 30} then Some m else None)"
  by (auto simp: checkin_mm_decode_def)



lemma UserInfo_decode_Inr:
  "UserInfo_decode v = Inr r \<longleftrightarrow>
     v = JSON_UserInfo r \<and> hh r \<in> {16, 17, 18, 19} \<and> mm r \<in> {0, 30}"
  by (auto simp: UserInfo_decode_def checkin_hh_decode_int checkin_mm_decode_int
      split: kv_value.splits if_splits)

lemma info_of_Inr:
  "info_of store i = Inr r \<longleftrightarrow>
     store (user_key i) = Some (JSON_UserInfo r) \<and> hh r \<in> {16, 17, 18, 19} \<and> mm r \<in> {0, 30}"
  by (auto simp: info_of_def UserInfo_decode_Inr split: option.splits)

lemma info_of_upd_same:
  "hh r \<in> {16, 17, 18, 19} \<Longrightarrow> mm r \<in> {0, 30} \<Longrightarrow>
   info_of (m(user_key i \<mapsto> JSON_UserInfo r)) i = Inr r"
  by (simp add: info_of_Inr)

lemma kv_send [simp]: "kv (send_message_to w c m b) = kv w"
  by (simp add: send_message_to_def)

lemma kv_kv_put [simp]: "kv (kv_put w k v) = (kv w)(k \<mapsto> v)"
  by (simp add: kv_put_def)

lemma trace_kv_put [simp]: "trace (kv_put w k v) = trace w"
  by (simp add: kv_put_def)

lemma trace_send [simp]: "trace (send_message_to w c m b) = trace w @ [Sent c m b]"
  by (simp add: send_message_to_def)

lemma kv_login: "kv (fst (login sv u p w)) = kv w"
  by (simp add: login_def Let_def split: login_reply.splits option.splits BuaaResp.splits)






lemma default_info_valid [simp]:
  "hh (default_info u p cid) = 17" "mm (default_info u p cid) = 30"
  "skip (default_info u p cid) = 0" "chat_id (default_info u p cid) = cid"
  by (simp_all add: default_info_def)

lemma update_info_ok:
  assumes "info_of (kv w) (Fin (of_int cid)) = Inr info"
    and "hh (f info) \<in> {16, 17, 18, 19}" and "mm (f info) \<in> {0, 30}"
  shows "update_info f cid w =
     (send_message_to (kv_put w (user_key (Fin (of_int cid))) (JSON_UserInfo (f info)))
        (chat_id (f info)) (Record_json (f info)) True, Inr ())"
  using assms by (simp add: update_info_def check_with_user_def info_of_upd_same)

lemma update_info_same_time:
  assumes "info_of (kv w) (Fin (of_int cid)) = Inr info"
    and "hh (f info) = hh info" and "mm (f info) = mm info"
  shows "update_info f cid w =
     (send_message_to (kv_put w (user_key (Fin (of_int cid))) (JSON_UserInfo (f info)))
        (chat_id (f info)) (Record_json (f info)) True, Inr ())"
  using assms update_info_ok [of w cid info f] by (simp add: info_of_Inr)

lemma dispatch_skip:
  "dispatch sv d (TelegramUpdate cid loc (Some (''/skip'' @ rest))) w = cmd_skip cid w"
  by (simp add: dispatch_def)

lemma dispatch_no_skip:
  "dispatch sv d (TelegramUpdate cid loc (Some (''/no_skip'' @ rest))) w = cmd_no_skip cid w"
  by (simp add: dispatch_def)

lemma dispatch_in_campus:
  "dispatch sv d (TelegramUpdate cid loc (Some (''/in_campus'' @ rest))) w = cmd_in_campus cid w"
  by (simp add: dispatch_def)

lemma dispatch_out_of_campus:
  "dispatch sv d (TelegramUpdate cid loc (Some (''/out_of_campus'' @ rest))) w
     = cmd_out_of_campus cid w"
  by (simp add: dispatch_def)

lemma dispatch_login:
  "dispatch sv d (TelegramUpdate cid loc (Some (''/login '' @ rest))) w
     = cmd_login sv cid (''/login '' @ rest) w"
  by (simp add: dispatch_def)

lemma dispatch_location:
  "dispatch sv d (TelegramUpdate cid (Some loc) None) w = on_location sv cid loc w"
  by (simp add: dispatch_def)

lemma cmd_skip_ok:
  assumes "info_of (kv w) (Fin (of_int cid)) = Inr info"
  shows "cmd_skip cid w =
     (send_message_to
        (kv_put w (user_key (Fin (of_int cid))) (JSON_UserInfo (info\<lparr>skip := skip info + 1\<rparr>)))
        (chat_id info) (Record_json (info\<lparr>skip := skip info + 1\<rparr>)) True, Inr ())"
  unfolding cmd_skip_def using update_info_same_time [OF assms, of "\<lambda>info. info\<lparr>skip := skip info + 1\<rparr>"]
  by simp

lemma cmd_no_skip_ok:
  assumes "info_of (kv w) (Fin (of_int cid)) = Inr info"
  shows "cmd_no_skip cid w =
     (send_message_to
        (kv_put w (user_key (Fin (of_int cid)))
           (JSON_UserInfo (info\<lparr>skip := (if skip info > 0 then skip info - 1 else skip info)\<rparr>)))
        (chat_id info)
        (Record_json (info\<lparr>skip := (if skip info > 0 then skip info - 1 else skip info)\<rparr>)) True,
      Inr ())"
  unfolding cmd_no_skip_def
  using update_info_same_time [OF assms,
      of "\<lambda>info. if skip info > 0 then info\<lparr>skip := skip info - 1\<rparr> else info"]
  by simp

lemma cmd_in_campus_ok:
  assumes "info_of (kv w) (Fin (of_int cid)) = Inr info"
  shows "cmd_in_campus cid w =
     (send_message_to
        (kv_put w (user_key (Fin (of_int cid))) (JSON_UserInfo (info\<lparr>in_campus := True\<rparr>)))
        (chat_id info) (Record_json (info\<lparr>in_campus := True\<rparr>)) True, Inr ())"
  unfolding cmd_in_campus_def
  using update_info_same_time [OF assms, of "\<lambda>info. info\<lparr>in_campus := True\<rparr>"] by simp

lemma cmd_out_of_campus_ok:
  assumes "info_of (kv w) (Fin (of_int cid)) = Inr info"
  shows "cmd_out_of_campus cid w =
     (send_message_to
        (kv_put w (user_key (Fin (of_int cid))) (JSON_UserInfo (info\<lparr>in_campus := False\<rparr>)))
        (chat_id info) (Record_json (info\<lparr>in_campus := False\<rparr>)) True, Inr ())"
  unfolding cmd_out_of_campus_def
  using update_info_same_time [OF assms, of "\<lambda>info. info\<lparr>in_campus := False\<rparr>"] by simp

lemma split_login:
  assumes "CHR '' '' \<notin> set u" and "CHR '' '' \<notin> set p"
  shows "split CHR '' '' (''/login '' @ u @ '' '' @ p) = [''/login'', u, p]"
proof -
  have "split CHR '' '' (''/login '' @ u @ '' '' @ p) = ''/login'' # split CHR '' '' (u @ '' '' @ p)"
    using split_append_sep [of "CHR '' ''" "''/login''" "u @ '' '' @ p"] by simp
  moreover have "split CHR '' '' (u @ '' '' @ p) = u # split CHR '' '' p"
    using split_append_sep [OF assms(1), of p] by simp
  ultimately show ?thesis using split_no_sep [OF assms(2)] by simp
qed

lemma cmd_checkin_at_cases:
  assumes "split CHR '' '' msg = c # split CHR '' '' S"
  shows "cmd_checkin_at cid msg w =
     (if CHR '' '' \<in> set S then (w, Inl (WrongCommandError msg))
      else case split CHR '':'' S of
             [a, b] \<Rightarrow>
               (case (checkin_hh_decode (js_number a), checkin_mm_decode (js_number b)) of
                  (Some h, Some m) \<Rightarrow> update_info (\<lambda>info. info\<lparr>hh := h, mm := m\<rparr>) cid w
                | _ \<Rightarrow> (w, Inl (WrongCheckinTime S)))
           | _ \<Rightarrow> (w, Inl (WrongCheckinTime S)))"
proof (cases "CHR '' '' \<in> set S")
  case True
  then have "length (split CHR '' '' S) \<noteq> Suc 0" by (simp add: length_split_one)
  then show ?thesis using True
    unfolding cmd_checkin_at_def assms by (simp add: Let_def)
next
  case False
  then have "split CHR '' '' S = [S]" by (rule split_no_sep)
  then show ?thesis using False
    unfolding cmd_checkin_at_def assms
    by (simp add: Let_def update_info_def split: option.splits list.splits)
qed

lemma dispatch_checkin_at_ok:
  assumes "info_of (kv w) (Fin (of_int cid)) = Inr info"
    and a: "h \<in> {16, 17, 18, 19} \<and> m \<in> {0, 30} \<and> parses_as S h m"
  shows "dispatch sv d (TelegramUpdate cid loc (Some (''/checkin_at '' @ S))) w =
              (send_message_to
                 (kv_put w (user_key (Fin (of_int cid))) (JSON_UserInfo (info\<lparr>hh := h, mm := m\<rparr>)))
                 (chat_id info) (Record_json (info\<lparr>hh := h, mm := m\<rparr>)) True, Inr ())"
proof -
  define msg where "msg = ''/checkin_at '' @ S"
  have sp: "split CHR '' '' msg = ''/checkin_at'' # split CHR '' '' S"
    unfolding msg_def using split_append_sep [of "CHR '' ''" "''/checkin_at''" S] by simp
  have d: "dispatch sv d (TelegramUpdate cid loc (Some msg)) w = cmd_checkin_at cid msg w"
    by (simp add: dispatch_def msg_def)
  note c = cmd_checkin_at_cases [OF sp, of cid w]
  from a have ns: "CHR '' '' \<notin> set S" by (simp add: parses_as_def)
  from a obtain a' b' where s2: "split CHR '':'' S = [a', b']"
    and na: "js_number a' = Fin (of_int h)" and nb: "js_number b' = Fin (of_int m)"
    by (auto simp: parses_as_def split: list.splits)
  have hd: "checkin_hh_decode (Fin (of_int h)) = Some h"
    using a by (simp add: checkin_hh_decode_int)
  have md: "checkin_mm_decode (Fin (of_int m)) = Some m"
    using a by (simp add: checkin_mm_decode_int)
  have "cmd_checkin_at cid msg w = update_info (\<lambda>info. info\<lparr>hh := h, mm := m\<rparr>) cid w"
    unfolding c by (simp add: ns s2 na nb hd md)
  then show ?thesis
    unfolding msg_def [symmetric]
    using update_info_ok [OF assms(1), of "\<lambda>info. info\<lparr>hh := h, mm := m\<rparr>"] a d by simp
qed


section \<open>Facts about the sweep\<close>

lemma check_with_user_trace:
  "\<exists>es. trace (fst (check_with_user w i)) = trace w @ es \<and> list_all is_sent es"
  by (simp add: check_with_user_def split: sum.splits)

lemma sweep_key_cases:
  assumes "info_of (kv w) (key_id name) = Inr info"
  shows "sweep_key d name w users =
     (if \<bar>expected_minutes info - current_minutes d\<bar> > 10 then (w, Inr users)
      else if skip info > 0 then
        (case check_with_user
                (send_message_to
                   (kv_put w (user_key (key_id name)) (JSON_UserInfo (info\<lparr>skip := skip info - 1\<rparr>)))
                   (chat_id info) (Plain ''skip for today'') False)
                (Fin (of_int (chat_id info))) of
           (w3, Inl e) \<Rightarrow> (w3, Inl (sweep_catch e))
         | (w3, Inr u) \<Rightarrow> (w3, Inr (users @ [info\<lparr>skip := skip info - 1\<rparr>])))
      else (w, Inr (users @ [info])))"
  using assms by (simp add: sweep_key_def Let_def)

lemma sweep_key_trace:
  "\<exists>es. trace (fst (sweep_key d name w users)) = trace w @ es \<and> list_all is_sent es"
proof (cases "info_of (kv w) (key_id name)")
  case (Inl e)
  then show ?thesis by (simp add: sweep_key_def)
next
  case (Inr info)
  obtain es where "trace (fst (check_with_user
                (send_message_to
                   (kv_put w (user_key (key_id name)) (JSON_UserInfo (info\<lparr>skip := skip info - 1\<rparr>)))
                   (chat_id info) (Plain ''skip for today'') False)
                (Fin (of_int (chat_id info))))) =
      trace (send_message_to
                   (kv_put w (user_key (key_id name)) (JSON_UserInfo (info\<lparr>skip := skip info - 1\<rparr>)))
                   (chat_id info) (Plain ''skip for today'') False) @ es" "list_all is_sent es"
    using check_with_user_trace by blast
  then show ?thesis
    unfolding sweep_key_cases [OF Inr]
    by (auto split: prod.splits sum.splits)
qed


lemma sweep_keys_append:
  "sweep_keys d (xs @ ys) w users =
     (case sweep_keys d xs w users of
        (w1, Inl x) \<Rightarrow> (w1, Inl x)
      | (w1, Inr users1) \<Rightarrow> sweep_keys d ys w1 users1)"
  by (induction xs arbitrary: w users) (auto split: prod.splits sum.splits)

lemma sweep_pages_concat:
  "sweep_pages d pages w users = sweep_keys d (concat pages) w users"
  by (induction pages arbitrary: w users) (auto simp: sweep_keys_append split: prod.splits sum.splits)

lemma sweep_keys_trace:
  "\<exists>es. trace (fst (sweep_keys d names w users)) = trace w @ es \<and> list_all is_sent es"
proof (induction names arbitrary: w users)
  case Nil
  then show ?case by simp
next
  case (Cons name names)
  obtain w1 r where s: "sweep_key d name w users = (w1, r)" by (cases "sweep_key d name w users")
  obtain es where e1: "trace w1 = trace w @ es" "list_all is_sent es"
    using sweep_key_trace [of d name w users] s by auto
  show ?case
  proof (cases r)
    case (Inl x)
    then show ?thesis using s e1 by simp
  next
    case (Inr users1)
    obtain es2 where "trace (fst (sweep_keys d names w1 users1)) = trace w1 @ es2" "list_all is_sent es2"
      using Cons.IH by blast
    then show ?thesis using s e1 Inr by simp
  qed
qed

section \<open>The invariant of the store\<close>













section \<open>Facts about the sample values\<close>

lemma user_key_42: "user_key (Fin 42) = ''user:42''"
proof -
  have "rat_to_string (of_int 42) = ''42''"
    unfolding rat_to_string_of_int by (simp add: int_to_string_def digits_of.simps digit_char_def)
  then show ?thesis by (simp add: user_key_def)
qed

lemma user_key_7: "user_key (Fin 7) = ''user:7''"
proof -
  have "rat_to_string (of_int 7) = ''7''"
    unfolding rat_to_string_of_int by (simp add: int_to_string_def digits_of.simps digit_char_def)
  then show ?thesis by (simp add: user_key_def)
qed

lemma key_id_42: "key_id ''user:42'' = Fin 42"
  using key_id_user_key [of 42] user_key_42 by simp

lemma key_id_7: "key_id ''user:7'' = Fin 7"
  using key_id_user_key [of 7] user_key_7 by simp

lemma sample_info_fields [simp]:
  "hh sample_info = 17" "mm sample_info = 30" "skip sample_info = 0" "chat_id sample_info = 42"
  "username sample_info = ''alice''" "password sample_info = ''secret''"
  "location sample_info = \<lparr>longitude = 116.343699, latitude = 39.977847\<rparr>"
  by (simp_all add: sample_info_def default_info_def)

lemma sample_info_skip_0 [simp]: "sample_info\<lparr>skip := 0\<rparr> = sample_info"
  by (simp add: sample_info_def default_info_def)

lemma info_of_42:
  "hh r \<in> {16, 17, 18, 19} \<Longrightarrow> mm r \<in> {0, 30} \<Longrightarrow>
   info_of (m(''user:42'' \<mapsto> JSON_UserInfo r)) (Fin 42) = Inr r"
  using info_of_upd_same [of r m "Fin 42"] user_key_42 by simp

lemma info_of_sample: "info_of (kv sample_world) (Fin 42) = Inr sample_info"
  by (simp add: sample_world_def info_of_42)

lemma checkin_sample:
  "checkin sample_services sample_info w =
     (w\<lparr>trace := trace w @ [Login_post ''alice'' ''secret'', Gaode_get 116.343699 39.977847,
          Checkin_post sample_info ''cookie'', Sent 42 (Plain ''done'') False]\<rparr>, Inr ())"
  by (simp add: checkin_def login_def sample_services_def send_message_to_def Let_def)





lemma js_number_16: "js_number ''16'' = Fin 16"
  by (simp add: js_number_def trim_def is_space_def unsigned_literal_def decimal_literal_def
      is_digit_def exponent_part_def nat_of_digits_def digit_val_def digit_table_def pow10_def)


lemma js_number_30: "js_number ''30'' = Fin 30"
  by (simp add: js_number_def trim_def is_space_def unsigned_literal_def decimal_literal_def
      is_digit_def exponent_part_def nat_of_digits_def digit_val_def digit_table_def pow10_def)

lemma parses_16_30: "parses_as ''16:30'' 16 30"
  by (simp add: parses_as_def js_number_16 js_number_30)

lemma parses_lenient: "parses_as ''16:'' 16 0 \<and> parses_as ''0x10:30'' 16 30"
  by (simp add: parses_as_def js_number_def trim_def is_space_def radix_literal_def
      unsigned_literal_def decimal_literal_def is_digit_def exponent_part_def nat_of_digits_def
      digit_val_def digit_table_def pow10_def)


section \<open>The sweep\<close>

text \<open>
  Claim C1. A user in the window with a positive skip counter should have the counter
  decremented and stored, get "skip for today" and the record, and not be checked in in
  that round. The sweep does the first four and then checks the user in all the same:
  after the \<^verbatim>\<open>if (info.skip > 0)\<close> block the record is pushed onto \<^verbatim>\<open>users\<close>
  like any other. Here the user of chat 42 has registered and sent \<^verbatim>\<open>/skip\<close>; the
  sweep runs at 09:30 UTC, which is 17:30 in UTC+8, the user's time. The trace of the
  sweep ends with the login at the portal, the geocoder request, the check-in form
  and the portal's answer to the user.
\<close>

theorem sweep_skip_still_checks_in:
  "do_scheduled sample_services (Clock 9 30) skipped_world =
     (\<lparr>kv = [''user:42'' \<mapsto> JSON_UserInfo sample_info],
       trace = trace skipped_world @
               [Sent 42 (Plain ''skip for today'') False, Sent 42 (Record_json sample_info) True,
                Login_post ''alice'' ''secret'', Gaode_get 116.343699 39.977847,
                Checkin_post sample_info ''cookie'', Sent 42 (Plain ''done'') False]\<rparr>, Inr ())"
proof -
  have i: "info_of (kv skipped_world) (key_id ''user:42'') = Inr (sample_info\<lparr>skip := 1\<rparr>)"
    unfolding key_id_42 skipped_world_def by (simp add: info_of_42)
  have k: "sweep_key (Clock 9 30) ''user:42'' skipped_world [] =
      (\<lparr>kv = [''user:42'' \<mapsto> JSON_UserInfo sample_info],
        trace = trace skipped_world @
          [Sent 42 (Plain ''skip for today'') False, Sent 42 (Record_json sample_info) True]\<rparr>,
       Inr [sample_info])"
    unfolding sweep_key_cases [OF i] key_id_42 user_key_42
    by (simp add: expected_minutes_def current_minutes_def check_with_user_def info_of_42
        skipped_world_def kv_put_def send_message_to_def)
  have "sweep_pages (Clock 9 30) (kv_list sample_services) skipped_world [] =
      (\<lparr>kv = [''user:42'' \<mapsto> JSON_UserInfo sample_info],
        trace = trace skipped_world @
          [Sent 42 (Plain ''skip for today'') False, Sent 42 (Record_json sample_info) True]\<rparr>,
       Inr [sample_info])"
    by (simp add: sample_services_def k)
  then show ?thesis
    by (simp add: do_scheduled_def checkin_sample)
qed



text \<open>
  Claim C6. When the sweep comes to a key whose record is missing (\<open>UserNotFound\<close>), fails
  the codec (\<open>InvalidUserInfo\<close>) or is no JSON, it stops there: the keys after it are not
  looked at, the users queued so far are not checked in (since the sweep began nothing
  but messages to chats has happened), and the sweep returns (missing record) or throws
  the error (the other two).
\<close>

theorem sweep_aborts_on_bad_record:
  assumes "concat (kv_list sv) = xs @ bad # ys"
    and "sweep_keys d xs w [] = (w1, Inr users)"
    and "info_of (kv w1) (key_id bad) = Inl e"
  shows "do_scheduled sv d w = (w1, case e of UserNotFound j \<Rightarrow> Inr () | _ \<Rightarrow> Inl e)
       \<and> (\<exists>es. trace w1 = trace w @ es \<and> list_all is_sent es)"
proof -
  have k: "sweep_key d bad w1 users = (w1, Inl (sweep_catch e))"
    using assms(3) by (simp add: sweep_key_def)
  have "sweep_pages d (kv_list sv) w [] = (w1, Inl (sweep_catch e))"
    unfolding sweep_pages_concat assms(1) sweep_keys_append assms(2) by (simp add: k)
  then have "do_scheduled sv d w = (w1, case e of UserNotFound j \<Rightarrow> Inr () | _ \<Rightarrow> Inl e)"
    by (simp add: do_scheduled_def sweep_catch_def split: error.splits)
  moreover have "\<exists>es. trace w1 = trace w @ es \<and> list_all is_sent es"
    using sweep_keys_trace [of d xs w "[]"] assms(2) by simp
  ultimately show ?thesis by blast
qed

theorem sweep_aborts_on_bad_record_witness:
  "concat (kv_list (sample_services\<lparr>kv_list := [[''user:42''], [''user:7'', ''user:8'']]\<rparr>))
     = [''user:42''] @ ''user:7'' # [''user:8'']
   \<and> sweep_keys (Clock 9 30) [''user:42''] corrupt_world [] = (corrupt_world, Inr [sample_info])
   \<and> info_of (kv corrupt_world) (key_id ''user:7'') = Inl InvalidUserInfo
   \<and> do_scheduled (sample_services\<lparr>kv_list := [[''user:42''], [''user:7'', ''user:8'']]\<rparr>)
        (Clock 9 30) corrupt_world = (corrupt_world, Inl InvalidUserInfo)"
proof -
  let ?sv = "sample_services\<lparr>kv_list := [[''user:42''], [''user:7'', ''user:8'']]\<rparr>"
  have c: "concat (kv_list ?sv) = [''user:42''] @ ''user:7'' # [''user:8'']" by simp
  have i: "info_of (kv corrupt_world) (key_id ''user:42'') = Inr sample_info"
    unfolding key_id_42 using user_key_42 by (simp add: info_of_Inr corrupt_world_def)
  have k: "sweep_keys (Clock 9 30) [''user:42''] corrupt_world [] = (corrupt_world, Inr [sample_info])"
    by (simp add: sweep_key_cases [OF i] expected_minutes_def current_minutes_def)
  have b: "info_of (kv corrupt_world) (key_id ''user:7'') = Inl InvalidUserInfo"
    unfolding key_id_7 using user_key_7
    by (simp add: info_of_def corrupt_world_def UserInfo_decode_def)
  show ?thesis
    using c k b sweep_aborts_on_bad_record [OF c k b] by simp
qed

section \<open>The commands\<close>



text \<open>
  Claim C5. \<^verbatim>\<open>/login u p\<close>: when the login at the portal fails, the command fails with
  the same error and the store is as before; when it succeeds, the record of the
  conversation is created or replaced by the one with the given credentials, 17:30, no
  skip days, in campus, and the default address and coordinates, whatever was stored
  before.
\<close>

theorem login_registers:
  assumes "CHR '' '' \<notin> set u" and "CHR '' '' \<notin> set p"
  shows "(\<forall>w1 e. login sv u p w = (w1, Inl e) \<longrightarrow>
            dispatch sv d (TelegramUpdate cid loc (Some (''/login '' @ u @ '' '' @ p))) w = (w1, Inl e)
            \<and> kv w1 = kv w)
       \<and> (\<forall>w1 c. login sv u p w = (w1, Inr c) \<longrightarrow>
            kv (fst (dispatch sv d (TelegramUpdate cid loc (Some (''/login '' @ u @ '' '' @ p))) w))
              = (kv w)(user_key (Fin (of_int cid)) \<mapsto> JSON_UserInfo
                  \<lparr>username = u, password = p, chat_id = cid, hh = 17, mm = 30, skip = 0,
                   area = beijing @ '' '' @ haidian, city = beijing, province = beijing,
                   address = default_address,
                   location = \<lparr>longitude = 116.343699, latitude = 39.977847\<rparr>,
                   in_campus = True\<rparr>)
            \<and> snd (dispatch sv d (TelegramUpdate cid loc (Some (''/login '' @ u @ '' '' @ p))) w)
              = Inr ())"
proof -
  define msg where "msg = ''/login '' @ u @ '' '' @ p"
  have sp: "split CHR '' '' msg = [''/login'', u, p]"
    unfolding msg_def by (rule split_login [OF assms])
  have d: "dispatch sv d (TelegramUpdate cid loc (Some msg)) w = cmd_login sv cid msg w"
    unfolding msg_def by (rule dispatch_login)
  have c: "cmd_login sv cid msg w =
      (case login sv u p w of
         (w1, Inl e) \<Rightarrow> (w1, Inl e)
       | (w1, Inr cookies) \<Rightarrow>
           check_with_user
             (kv_put w1 (user_key (Fin (of_int cid))) (JSON_UserInfo (default_info u p cid)))
             (Fin (of_int cid)))"
    unfolding cmd_login_def sp by (simp add: Let_def)
  have fail: "dispatch sv d (TelegramUpdate cid loc (Some msg)) w = (w1, Inl e) \<and> kv w1 = kv w"
    if "login sv u p w = (w1, Inl e)" for w1 e
    using that kv_login [of sv u p w] unfolding d c by simp
  have ok: "kv (fst (dispatch sv d (TelegramUpdate cid loc (Some msg)) w))
              = (kv w)(user_key (Fin (of_int cid)) \<mapsto> JSON_UserInfo (default_info u p cid))
            \<and> snd (dispatch sv d (TelegramUpdate cid loc (Some msg)) w) = Inr ()"
    if "login sv u p w = (w1, Inr c)" for w1 c
    using that kv_login [of sv u p w] unfolding d c
    by (simp add: check_with_user_def info_of_upd_same)
  show ?thesis
    unfolding msg_def [symmetric] default_info_def [symmetric]
  proof (intro conjI allI impI)
    fix w1 e
    assume "login sv u p w = (w1, Inl e)"
    then show "dispatch sv d (TelegramUpdate cid loc (Some msg)) w = (w1, Inl e)" "kv w1 = kv w"
      using fail by simp_all
  next
    fix w1 c
    assume "login sv u p w = (w1, Inr c)"
    then show "kv (fst (dispatch sv d (TelegramUpdate cid loc (Some msg)) w))
              = (kv w)(user_key (Fin (of_int cid)) \<mapsto> JSON_UserInfo (default_info u p cid))"
      "snd (dispatch sv d (TelegramUpdate cid loc (Some msg)) w) = Inr ()"
      using ok by simp_all
  qed
qed

theorem login_registers_witness:
  "CHR '' '' \<notin> set ''alice'' \<and> CHR '' '' \<notin> set ''secret''
   \<and> kv (fst (dispatch sample_services (Clock 9 30)
              (TelegramUpdate 42 None (Some ''/login alice secret''))
              (sample_world\<lparr>kv := [''user:42'' \<mapsto> JSON_UserInfo (sample_info\<lparr>skip := 3, hh := 19\<rparr>)]\<rparr>)))
       = [''user:42'' \<mapsto> JSON_UserInfo sample_info]
   \<and> kv (fst (dispatch failing_services (Clock 9 30)
              (TelegramUpdate 42 None (Some ''/login alice secret'')) \<lparr>kv = Map.empty, trace = []\<rparr>))
       = Map.empty
   \<and> snd (dispatch failing_services (Clock 9 30)
              (TelegramUpdate 42 None (Some ''/login alice secret'')) \<lparr>kv = Map.empty, trace = []\<rparr>)
       = Inl (LoginError ''Login Failed bad password'')"
proof -
  have ns: "CHR '' '' \<notin> set ''alice''" "CHR '' '' \<notin> set ''secret''" by simp_all
  let ?w = "sample_world\<lparr>kv := [''user:42'' \<mapsto> JSON_UserInfo (sample_info\<lparr>skip := 3, hh := 19\<rparr>)]\<rparr>"
  let ?e = "\<lparr>kv = Map.empty, trace = []\<rparr>"
  have l1: "login sample_services ''alice'' ''secret'' ?w
      = (?w\<lparr>trace := trace ?w @ [Login_post ''alice'' ''secret'']\<rparr>, Inr ''cookie'')"
    by (simp add: login_def sample_services_def)
  have l2: "login failing_services ''alice'' ''secret'' ?e
      = (\<lparr>kv = Map.empty, trace = [Login_post ''alice'' ''secret'']\<rparr>,
         Inl (LoginError ''Login Failed bad password''))"
    by (simp add: login_def failing_services_def sample_services_def)
  have a: "kv (fst (dispatch sample_services (Clock 9 30)
              (TelegramUpdate 42 None (Some (''/login '' @ ''alice'' @ '' '' @ ''secret''))) ?w))
      = (kv ?w)(user_key (Fin (of_int 42)) \<mapsto> JSON_UserInfo (default_info ''alice'' ''secret'' 42))"
    using login_registers [OF ns, of sample_services ?w "Clock 9 30" 42 None] l1
    unfolding default_info_def by blast
  have b: "dispatch failing_services (Clock 9 30)
              (TelegramUpdate 42 None (Some (''/login '' @ ''alice'' @ '' '' @ ''secret''))) ?e
      = (\<lparr>kv = Map.empty, trace = [Login_post ''alice'' ''secret'']\<rparr>,
         Inl (LoginError ''Login Failed bad password''))"
    using login_registers [OF ns, of failing_services ?e "Clock 9 30" 42 None] l2 by blast
  have a': "kv (fst (dispatch sample_services (Clock 9 30)
              (TelegramUpdate 42 None (Some ''/login alice secret'')) ?w))
      = [''user:42'' \<mapsto> JSON_UserInfo sample_info]"
    using a user_key_42 by (simp add: sample_info_def)
  have b': "dispatch failing_services (Clock 9 30)
              (TelegramUpdate 42 None (Some ''/login alice secret'')) ?e
      = (\<lparr>kv = Map.empty, trace = [Login_post ''alice'' ''secret'']\<rparr>,
         Inl (LoginError ''Login Failed bad password''))"
    using b by simp
  show ?thesis using ns a' unfolding b' by simp
qed

text \<open>
  Claim C7. Every text that starts with \<^verbatim>\<open>/delete\<close> deletes the record of the
  conversation, whether it was there or not; the echo of the record that follows fails
  with \<open>UserNotFound\<close>, and \<^verbatim>\<open>fetch\<close> catches it: it sends "User ... does not exist"
  to the conversation and answers "end with error"; no exception leaves the handler.
\<close>

theorem delete_then_echo_fails:
  "dispatch sv d (TelegramUpdate cid loc (Some (''/delete'' @ rest))) w
     = (kv_delete w (user_key (Fin (of_int cid))), Inl (UserNotFound (Fin (of_int cid))))
   \<and> fetch sv d (Req_json (Some (TelegramUpdate cid loc (Some (''/delete'' @ rest))))) w
     = (w\<lparr>kv := (kv w)(user_key (Fin (of_int cid)) := None),
           trace := trace w @
             [Sent cid (Plain (''User '' @ int_to_string cid @ '' does not exist'')) False]\<rparr>,
        Inr End_with_error)"
proof -
  have d: "dispatch sv d (TelegramUpdate cid loc (Some (''/delete'' @ rest))) w
     = (kv_delete w (user_key (Fin (of_int cid))), Inl (UserNotFound (Fin (of_int cid))))"
    by (simp add: dispatch_def cmd_delete_def check_with_user_def kv_delete_def info_of_def)
  show ?thesis
    unfolding fetch_def request.case option.case TelegramUpdate.sel d
    by (simp add: inner_catch_def outer_catch_def send_message_to_def kv_delete_def)
qed

theorem delete_then_echo_fails_witness:
  "kv (fst (fetch sample_services (Clock 9 30)
        (Req_json (Some (TelegramUpdate 42 None (Some ''/delete'')))) sample_world)) ''user:42'' = None
   \<and> snd (fetch sample_services (Clock 9 30)
        (Req_json (Some (TelegramUpdate 42 None (Some ''/delete'')))) sample_world) = Inr End_with_error"
  using delete_then_echo_fails [of sample_services "Clock 9 30" 42 None "[]" sample_world]
    user_key_42
  by simp

text \<open>
  Claim C8. A location message (no text) for an existing record, when the geocoder's
  answer passes its codec: the record is written back with the geocoder's province and
  formatted address, the coordinates of the message, the city (the geocoder's city if
  that is a string, the province otherwise) and, as area, the city, a blank and the
  district.
\<close>

theorem location_update:
  assumes "info_of (kv w) (Fin (of_int cid)) = Inr info"
    and "gaode sv (longitude loc) (latitude loc) = Gaode_json (Some resp)"
  shows "kv (fst (dispatch sv d (TelegramUpdate cid (Some loc) None) w))
           = (kv w)(user_key (Fin (of_int cid)) \<mapsto> JSON_UserInfo
               (info\<lparr>city := (case ac_city resp of City_string s \<Rightarrow> s
                                | City_array xs \<Rightarrow> ac_province resp),
                      province := ac_province resp,
                      area := (case ac_city resp of City_string s \<Rightarrow> s
                               | City_array xs \<Rightarrow> ac_province resp) @ '' '' @ ac_district resp,
                      address := formatted_address resp,
                      location := loc\<rparr>))
       \<and> snd (dispatch sv d (TelegramUpdate cid (Some loc) None) w) = Inr ()"
proof -
  define w1 where "w1 = w\<lparr>trace := trace w @ [Gaode_get (longitude loc) (latitude loc)]\<rparr>"
  have i1: "info_of (kv w1) (Fin (of_int cid)) = Inr info"
    using assms(1) by (simp add: w1_def)
  have k1: "kv w1 = kv w" by (simp add: w1_def)
  show ?thesis
    unfolding dispatch_location on_location_def assms(2) Let_def gaode_reply.case option.case
      w1_def [symmetric]
    using update_info_same_time [OF i1] k1 by simp
qed

theorem location_update_witness:
  "info_of (kv sample_world) (Fin (of_int 42)) = Inr sample_info
   \<and> gaode sample_services (longitude sample_location) (latitude sample_location)
       = Gaode_json (Some sample_resp)
   \<and> kv (fst (dispatch sample_services (Clock 9 30)
              (TelegramUpdate 42 (Some sample_location) None) sample_world))
       = [''user:42'' \<mapsto> JSON_UserInfo
            (sample_info\<lparr>city := ''Beijing'', province := ''Beijing'', area := ''Beijing Haidian'',
                          address := ''Xueyuan Road 37'', location := sample_location\<rparr>)]"
proof -
  have i: "info_of (kv sample_world) (Fin (of_int 42)) = Inr sample_info"
    using info_of_sample by simp
  have g: "gaode sample_services (longitude sample_location) (latitude sample_location)
       = Gaode_json (Some sample_resp)"
    by (simp add: sample_services_def)
  show ?thesis
    using i g location_update [OF i g, of "Clock 9 30"] user_key_42
    by (simp add: sample_resp_def sample_world_def)
qed

text \<open>
  Claim C9. Each of \<^verbatim>\<open>/skip\<close>, \<^verbatim>\<open>/no_skip\<close>, \<^verbatim>\<open>/in_campus\<close>,
  \<^verbatim>\<open>/out_of_campus\<close> and a valid \<^verbatim>\<open>/checkin_at\<close> writes one record back under
  the key of the conversation and changes no other key; the record written differs from
  the one read at most in the fields the command is about: setting those back gives the
  old record.
\<close>

theorem mutation_frame:
  assumes "info_of (kv w) (Fin (of_int cid)) = Inr info"
  shows "(\<exists>r. kv (fst (dispatch sv d (TelegramUpdate cid loc (Some (''/skip'' @ rest))) w))
               = (kv w)(user_key (Fin (of_int cid)) \<mapsto> JSON_UserInfo r)
            \<and> r\<lparr>skip := skip info\<rparr> = info)
       \<and> (\<exists>r. kv (fst (dispatch sv d (TelegramUpdate cid loc (Some (''/no_skip'' @ rest))) w))
               = (kv w)(user_key (Fin (of_int cid)) \<mapsto> JSON_UserInfo r)
            \<and> r\<lparr>skip := skip info\<rparr> = info)
       \<and> (\<exists>r. kv (fst (dispatch sv d (TelegramUpdate cid loc (Some (''/in_campus'' @ rest))) w))
               = (kv w)(user_key (Fin (of_int cid)) \<mapsto> JSON_UserInfo r)
            \<and> r\<lparr>in_campus := in_campus info\<rparr> = info)
       \<and> (\<exists>r. kv (fst (dispatch sv d (TelegramUpdate cid loc (Some (''/out_of_campus'' @ rest))) w))
               = (kv w)(user_key (Fin (of_int cid)) \<mapsto> JSON_UserInfo r)
            \<and> r\<lparr>in_campus := in_campus info\<rparr> = info)
       \<and> (h \<in> {16, 17, 18, 19} \<and> m \<in> {0, 30} \<and> parses_as S h m \<longrightarrow>
           (\<exists>r. kv (fst (dispatch sv d (TelegramUpdate cid loc (Some (''/checkin_at '' @ S))) w))
               = (kv w)(user_key (Fin (of_int cid)) \<mapsto> JSON_UserInfo r)
            \<and> r\<lparr>hh := hh info, mm := mm info\<rparr> = info))"
proof (intro conjI impI)
  show "\<exists>r. kv (fst (dispatch sv d (TelegramUpdate cid loc (Some (''/skip'' @ rest))) w))
               = (kv w)(user_key (Fin (of_int cid)) \<mapsto> JSON_UserInfo r)
            \<and> r\<lparr>skip := skip info\<rparr> = info"
    unfolding dispatch_skip cmd_skip_ok [OF assms]
    by (rule exI [of _ "info\<lparr>skip := skip info + 1\<rparr>"]) simp
  show "\<exists>r. kv (fst (dispatch sv d (TelegramUpdate cid loc (Some (''/no_skip'' @ rest))) w))
               = (kv w)(user_key (Fin (of_int cid)) \<mapsto> JSON_UserInfo r)
            \<and> r\<lparr>skip := skip info\<rparr> = info"
    unfolding dispatch_no_skip cmd_no_skip_ok [OF assms]
    by (rule exI [of _ "info\<lparr>skip := (if skip info > 0 then skip info - 1 else skip info)\<rparr>"]) simp
  show "\<exists>r. kv (fst (dispatch sv d (TelegramUpdate cid loc (Some (''/in_campus'' @ rest))) w))
               = (kv w)(user_key (Fin (of_int cid)) \<mapsto> JSON_UserInfo r)
            \<and> r\<lparr>in_campus := in_campus info\<rparr> = info"
    unfolding dispatch_in_campus cmd_in_campus_ok [OF assms]
    by (rule exI [of _ "info\<lparr>in_campus := True\<rparr>"]) simp
  show "\<exists>r. kv (fst (dispatch sv d (TelegramUpdate cid loc (Some (''/out_of_campus'' @ rest))) w))
               = (kv w)(user_key (Fin (of_int cid)) \<mapsto> JSON_UserInfo r)
            \<and> r\<lparr>in_campus := in_campus info\<rparr> = info"
    unfolding dispatch_out_of_campus cmd_out_of_campus_ok [OF assms]
    by (rule exI [of _ "info\<lparr>in_campus := False\<rparr>"]) simp
next
  assume a: "h \<in> {16, 17, 18, 19} \<and> m \<in> {0, 30} \<and> parses_as S h m"
  show "\<exists>r. kv (fst (dispatch sv d (TelegramUpdate cid loc (Some (''/checkin_at '' @ S))) w))
               = (kv w)(user_key (Fin (of_int cid)) \<mapsto> JSON_UserInfo r)
            \<and> r\<lparr>hh := hh info, mm := mm info\<rparr> = info"
    unfolding dispatch_checkin_at_ok [OF assms a]
    by (rule exI [of _ "info\<lparr>hh := h, mm := m\<rparr>"]) simp
qed

theorem mutation_frame_witness:
  "info_of (kv sample_world) (Fin (of_int 42)) = Inr sample_info
   \<and> (16::int) \<in> {16, 17, 18, 19} \<and> (30::int) \<in> {0, 30} \<and> parses_as ''16:30'' 16 30
   \<and> (\<exists>r. kv (fst (dispatch sample_services (Clock 9 30)
                   (TelegramUpdate 42 None (Some ''/checkin_at 16:30'')) sample_world))
             = (kv sample_world)(''user:42'' \<mapsto> JSON_UserInfo r)
          \<and> r\<lparr>hh := 17, mm := 30\<rparr> = sample_info)
   \<and> (\<exists>r. kv (fst (dispatch sample_services (Clock 9 30)
                   (TelegramUpdate 42 None (Some ''/out_of_campus'')) sample_world))
             = (kv sample_world)(''user:42'' \<mapsto> JSON_UserInfo r)
          \<and> r\<lparr>in_campus := True\<rparr> = sample_info)"
proof -
  have i: "info_of (kv sample_world) (Fin (of_int 42)) = Inr sample_info"
    using info_of_sample by simp
  have ic: "in_campus sample_info = True" by (simp add: sample_info_def default_info_def)
  show ?thesis
    using i parses_16_30 user_key_42
      mutation_frame [OF i, of sample_services "Clock 9 30" None "[]" 16 30 "''16:30''"]
    by (simp add: ic)
qed

section \<open>Invariants of the reachable stores\<close>





end
